theory Spec2Isabelle
  imports Main
begin

section \<open>Go strings and the standard-library helpers the package calls\<close>

text \<open>
  A Go \<open>string\<close> is a sequence of bytes; it is modelled by \<open>string\<close> (a list of
  8-bit \<open>char\<close>s).  \<open>byte c\<close> is the numeric value of a byte.
\<close>

definition byte :: "char \<Rightarrow> nat" where
  "byte c = of_char c"

text \<open>\<open>strings.HasPrefix\<close> and \<open>strings.TrimPrefix\<close>.\<close>

definition HasPrefix :: "string \<Rightarrow> string \<Rightarrow> bool" where
  "HasPrefix s pre = (length pre \<le> length s \<and> take (length pre) s = pre)"

definition TrimPrefix :: "string \<Rightarrow> string \<Rightarrow> string" where
  "TrimPrefix s pre = (if HasPrefix s pre then drop (length pre) s else s)"

text \<open>
  \<open>strings.Split(s, sep)\<close> for a separator of one byte (the package only splits on
  \<open>"."\<close>): the substrings between the separators, one more than there are
  separators, so the empty string yields one empty component.  The \<open>[]\<close> branch of
  the inner case is never taken (the result is never empty).
\<close>

fun Split :: "string \<Rightarrow> char \<Rightarrow> string list" where
  "Split [] sep = [[]]"
| "Split (c # cs) sep =
     (if c = sep then [] # Split cs sep
      else (case Split cs sep of [] \<Rightarrow> [[c]] | x # xs \<Rightarrow> (c # x) # xs))"

text \<open>
  \<open>strconv.Atoi\<close> on a 64-bit platform, through \<open>strconv.ParseInt(s, 10, 0)\<close> and
  \<open>strconv.ParseUint(s, 10, 64)\<close>: an optional sign, then one or more decimal
  digits, the value within the range of \<open>int64\<close>.  The two error kinds of
  \<open>*strconv.NumError\<close> are kept apart as the library does: the digit loop reports a
  range error as soon as the accumulator overflows, before it reads further bytes.
\<close>

datatype num_error = ErrSyntax | ErrRange

definition isDigit :: "char \<Rightarrow> bool" where
  "isDigit c = (48 \<le> byte c \<and> byte c \<le> 57)"

definition maxUint64 :: nat where
  "maxUint64 = 18446744073709551615"

fun parse_digits :: "nat \<Rightarrow> string \<Rightarrow> num_error + nat" where
  "parse_digits n [] = Inr n"
| "parse_digits n (c # cs) =
     (if \<not> isDigit c then Inl ErrSyntax
      else if n \<ge> maxUint64 div 10 + 1 then Inl ErrRange
      else if n * 10 + (byte c - 48) > maxUint64 then Inl ErrRange
      else parse_digits (n * 10 + (byte c - 48)) cs)"

definition ParseUint :: "string \<Rightarrow> num_error + nat" where
  "ParseUint s = (if s = [] then Inl ErrSyntax else parse_digits 0 s)"

definition ParseInt :: "string \<Rightarrow> num_error + int" where
  "ParseInt s0 =
     (if s0 = [] then Inl ErrSyntax
      else
        let neg = (hd s0 = CHR ''-'');
            s = (if hd s0 = CHR ''+'' \<or> hd s0 = CHR ''-'' then tl s0 else s0)
        in (case ParseUint s of
              Inl ErrSyntax \<Rightarrow> Inl ErrSyntax
            | Inl ErrRange \<Rightarrow> Inl ErrRange
            | Inr un \<Rightarrow>
                if \<not> neg \<and> un \<ge> 2 ^ 63 then Inl ErrRange
                else if neg \<and> un > 2 ^ 63 then Inl ErrRange
                else Inr (if neg then - int un else int un)))"

definition Atoi :: "string \<Rightarrow> num_error + int" where
  "Atoi s = ParseInt s"


section \<open>path/filepath on a Unix system\<close>

text \<open>
  \<open>strings.Join(elems, "/")\<close>.
\<close>

fun join_slash :: "string list \<Rightarrow> string" where
  "join_slash [] = []"
| "join_slash [e] = e"
| "join_slash (e # es) = e @ ''/'' @ join_slash es"

text \<open>
  \<open>filepath.Clean\<close>, by the four rules of its documentation: runs of separators are
  one separator, \<open>.\<close> elements are dropped, an inner \<open>..\<close> is dropped together with
  the element before it, and a \<open>..\<close> that would climb above the root of a rooted
  path is dropped.  The result ends in a slash only when it is the root, and the
  empty result is \<open>.\<close>.  \<open>clean_elems\<close> keeps the elements written so far in
  reverse.
\<close>

definition path_elems :: "string \<Rightarrow> string list" where
  "path_elems p = filter (\<lambda>e. e \<noteq> [] \<and> e \<noteq> ''.'') (Split p CHR ''/'')"

fun clean_elems :: "bool \<Rightarrow> string list \<Rightarrow> string list \<Rightarrow> string list" where
  "clean_elems rooted out [] = rev out"
| "clean_elems rooted out (e # es) =
     (if e = ''..'' then
        (case out of
           [] \<Rightarrow> if rooted then clean_elems rooted [] es else clean_elems rooted [e] es
         | prev # below \<Rightarrow>
             if prev = ''..'' then clean_elems rooted (e # out) es
             else clean_elems rooted below es)
      else clean_elems rooted (e # out) es)"

definition Clean :: "string \<Rightarrow> string" where
  "Clean p =
     (let rooted = (p \<noteq> [] \<and> hd p = CHR ''/'');
          out = clean_elems rooted [] (path_elems p)
      in if rooted then CHR ''/'' # join_slash out
         else if out = [] then ''.''
         else join_slash out)"

text \<open>
  \<open>filepath.Join\<close>: the elements from the first non-empty one on are joined with
  slashes and the result is cleaned; with no non-empty element the result is the
  empty string.
\<close>

fun Join :: "string list \<Rightarrow> string" where
  "Join [] = []"
| "Join (e # es) = (if e \<noteq> [] then Clean (join_slash (e # es)) else Join es)"

text \<open>
  \<open>filepath.Dir\<close>: the path up to and including its last separator, cleaned.
\<close>

definition Dir :: "string \<Rightarrow> string" where
  "Dir p = Clean (rev (dropWhile (\<lambda>c. c \<noteq> CHR ''/'') (rev p)))"

section \<open>unicode/utf8, unicode, strings.Fields, strings.TrimSpace, encoding/hex\<close>

text \<open>
  \<open>utf8.DecodeRuneInString\<close>: the rune at the start of a string and its width in
  bytes.  A byte that does not start a well-formed encoding decodes to
  \<open>RuneError\<close> with width 1.  The bounds on the second byte are the library's
  \<open>acceptRanges\<close>; the masks \<open>0x1F\<close>, \<open>0x0F\<close>, \<open>0x07\<close> and \<open>0x3F\<close> are written as
  remainders.
\<close>

definition RuneError :: nat where
  "RuneError = 65533"

fun DecodeRuneInString :: "string \<Rightarrow> nat \<times> nat" where
  "DecodeRuneInString [] = (RuneError, 0)"
| "DecodeRuneInString (c0 # cs) =
     (let s0 = byte c0 in
      if s0 < 128 then (s0, 1)
      else if s0 < 194 \<or> 244 < s0 then (RuneError, 1)
      else
        let sz = (if s0 < 224 then 2 else if s0 < 240 then 3 else 4) :: nat;
            lo = (if s0 = 224 then 160 else if s0 = 240 then 144 else 128) :: nat;
            hi = (if s0 = 237 then 159 else if s0 = 244 then 143 else 191) :: nat
        in
        if length (c0 # cs) < sz then (RuneError, 1)
        else
          let s1 = byte (cs ! 0) in
          if s1 < lo \<or> hi < s1 then (RuneError, 1)
          else if sz \<le> 2 then ((s0 mod 32) * 64 + s1 mod 64, 2)
          else
            let s2 = byte (cs ! 1) in
            if s2 < 128 \<or> 191 < s2 then (RuneError, 1)
            else if sz \<le> 3 then ((s0 mod 16) * 4096 + (s1 mod 64) * 64 + s2 mod 64, 3)
            else
              let s3 = byte (cs ! 2) in
              if s3 < 128 \<or> 191 < s3 then (RuneError, 1)
              else ((s0 mod 8) * 262144 + (s1 mod 64) * 4096 + (s2 mod 64) * 64
                      + s3 mod 64, 4))"

declare DecodeRuneInString.simps [simp del]

text \<open>
  The runes of a string as a \<open>for ... range s\<close> loop visits them, each with the
  bytes it was decoded from.
\<close>

fun runes :: "string \<Rightarrow> (nat \<times> string) list" where
  "runes [] = []"
| "runes (c # cs) =
     (case DecodeRuneInString (c # cs) of
        (r, w) \<Rightarrow> (r, take w (c # cs)) # runes (drop (w - 1) cs))"

text \<open>\<open>unicode.IsSpace\<close>: the Latin-1 white space and the \<open>White_Space\<close> table.\<close>

definition IsSpace :: "nat \<Rightarrow> bool" where
  "IsSpace r =
     (if r \<le> 255 then r \<in> set [9, 10, 11, 12, 13, 32, 133, 160]
      else r = 5760 \<or> (8192 \<le> r \<and> r \<le> 8202) \<or> r = 8232 \<or> r = 8233 \<or> r = 8239
           \<or> r = 8287 \<or> r = 12288)"

text \<open>
  \<open>strings.Fields(s)\<close>, which is \<open>strings.FieldsFunc(s, unicode.IsSpace)\<close> (with a
  shortcut for ASCII strings that computes the same): the maximal runs of runes that
  are not white space.  \<open>cur\<close> is the field under construction, if one was started.
\<close>

fun fields_loop :: "(nat \<times> string) list \<Rightarrow> string option \<Rightarrow> string list" where
  "fields_loop [] cur = (case cur of None \<Rightarrow> [] | Some f \<Rightarrow> [f])"
| "fields_loop ((r, bs) # rs) cur =
     (if IsSpace r then
        (case cur of None \<Rightarrow> fields_loop rs None | Some f \<Rightarrow> f # fields_loop rs None)
      else fields_loop rs (Some ((case cur of None \<Rightarrow> [] | Some f \<Rightarrow> f) @ bs)))"

definition Fields :: "string \<Rightarrow> string list" where
  "Fields s = fields_loop (runes s) None"

text \<open>
  \<open>strings.TrimSpace(s)\<close>: \<open>s\<close> without its leading and trailing white-space runes.
  The library finds the trailing runes by decoding backwards; on a string of
  well-formed encodings that is the same as dropping them from the list of runes.
\<close>

definition TrimSpace :: "string \<Rightarrow> string" where
  "TrimSpace s =
     concat (map snd (rev (dropWhile (\<lambda>x. IsSpace (fst x))
       (rev (dropWhile (\<lambda>x. IsSpace (fst x)) (runes s))))))"

text \<open>\<open>hex.EncodeToString\<close>: two lower-case hexadecimal digits per byte.\<close>

definition hexdigit :: "nat \<Rightarrow> char" where
  "hexdigit n = ''0123456789abcdef'' ! (n mod 16)"

definition EncodeToString :: "string \<Rightarrow> string" where
  "EncodeToString bs = concat (map (\<lambda>c. [hexdigit (byte c div 16), hexdigit (byte c)]) bs)"

section \<open>The retry poller (k8s.io/apimachinery, wait.PollUntilContextTimeout)\<close>

text \<open>
  The poller is a library the package calls with \<open>interval = 3s\<close>, \<open>timeout = 1min\<close>
  and \<open>immediate = true\<close>.  It runs the condition, and stops with the condition's
  error when the condition returns one (the library aborts the loop on an error of
  the condition; the closures of this package return \<open>false, nil\<close> for what they
  want retried), with \<open>nil\<close> when the condition reports \<open>done\<close>, and with the
  context's error when the deadline passes or the context is cancelled before the
  next attempt.

  In the model the environment is the list of its answers to the successive
  attempts: an element says what the network and the file system do during that
  attempt.  The list ends where the deadline (or cancellation) stops the polling, so
  running out of answers is the poller's timeout.  A condition is a function from
  the environment's answer and the variables the Go closure captures to the
  closure's result \<open>(done, err)\<close> and the updated variables.
\<close>

datatype 'e poll_error = ConditionError 'e | ContextDone

fun poll_loop ::
  "('a \<Rightarrow> 's \<Rightarrow> (bool \<times> 'e option) \<times> 's) \<Rightarrow> 'a list \<Rightarrow> 's \<Rightarrow> 'e poll_error option \<times> 's"
where
  "poll_loop condition [] s = (Some ContextDone, s)"
| "poll_loop condition (a # as) s =
     (case condition a s of
        ((ok, err), s') \<Rightarrow>
          (case err of
             Some e \<Rightarrow> (Some (ConditionError e), s')
           | None \<Rightarrow> if ok then (None, s') else poll_loop condition as s'))"

text \<open>
  With \<open>immediate = true\<close> the condition runs at least once, whatever the state of
  the context: the first answer is an argument of its own.
\<close>

definition PollUntilContextTimeout ::
  "('a \<Rightarrow> 's \<Rightarrow> (bool \<times> 'e option) \<times> 's) \<Rightarrow> 'a \<Rightarrow> 'a list \<Rightarrow> 's \<Rightarrow> 'e poll_error option \<times> 's"
where
  "PollUntilContextTimeout condition first rest s = poll_loop condition (first # rest) s"


section \<open>pkg/gotools/client.go\<close>

text \<open>
  \<open>GoRelease\<close> (declared in version.go): one entry of the release feed.
\<close>

record GoRelease =
  Version :: string
  Stable :: bool

text \<open>
  An \<open>io.ReadCloser\<close> obtained from an HTTP response: \<open>rid\<close> identifies the reader,
  \<open>decoded\<close> is what \<open>json.NewDecoder(body).Decode(&releases)\<close> yields when it reads
  it (an error message, or the feed).  Calls of \<open>Close\<close> are recorded in a log of
  reader identifiers, in the order of the calls.
\<close>

record body_reader =
  rid :: nat
  decoded :: "string + GoRelease list"

text \<open>\<open>safeClose(body)\<close>: closes the reader unless it is \<open>nil\<close>.\<close>

fun safeClose :: "body_reader option \<Rightarrow> nat list \<Rightarrow> nat list" where
  "safeClose None closes = closes"
| "safeClose (Some b) closes = closes @ [rid b]"

section \<open>pkg/gotools/version.go\<close>

text \<open>
  \<open>getReleasesWithRetry\<close>.  The environment's answer to one attempt is what
  \<open>c.client.Do(req)\<close> returns: an error, or a response with its status code and
  its body.
\<close>

datatype release_attempt = DoFailed string | Responded nat body_reader

datatype attempt_error = TransportError string | UnexpectedStatusCode nat

datatype releases_error =
    FetchVersionInfoFailed attempt_error
  | FetchVersionInfoTimedOut
  | ParseVersionInfoFailed string
  | NilBodyPanic

text \<open>The variables the closure captures: \<open>lastErrSeen\<close> and \<open>body\<close> (here \<open>bodyVar\<close>).\<close>

record retry_vars =
  lastErrSeen :: "attempt_error option"
  bodyVar :: "body_reader option"

definition releases_condition ::
  "release_attempt \<Rightarrow> retry_vars \<Rightarrow> (bool \<times> unit option) \<times> retry_vars"
where
  "releases_condition a vars =
     (case a of
        DoFailed err \<Rightarrow> ((False, None), vars\<lparr>lastErrSeen := Some (TransportError err)\<rparr>)
      | Responded code b \<Rightarrow>
          if code \<noteq> 200
          then ((False, None), vars\<lparr>lastErrSeen := Some (UnexpectedStatusCode code)\<rparr>)
          else ((True, None), vars\<lparr>bodyVar := Some b\<rparr>))"

text \<open>
  The function starts with \<open>var body io.ReadCloser\<close> and \<open>defer safeClose(body)\<close>.
  Go evaluates the arguments of a deferred call when the \<open>defer\<close> statement
  executes, so the deferred call receives the value \<open>body\<close> has at that point
  (\<open>deferred\<close> below), and runs when the function returns, on every path.

  The poller returns \<open>nil\<close> only after the closure has stored a body, so the
  \<open>NilBodyPanic\<close> branch (decoding a \<open>nil\<close> reader) is not reachable; it is there
  to make the model total.  The result is the returned value and the log of \<open>Close\<close>
  calls.
\<close>

definition getReleasesWithRetry ::
  "release_attempt \<Rightarrow> release_attempt list \<Rightarrow> nat list \<Rightarrow>
     (releases_error + GoRelease list) \<times> nat list"
where
  "getReleasesWithRetry first rest closes =
     (let vars0 = \<lparr>lastErrSeen = None, bodyVar = None\<rparr>;
          deferred = bodyVar vars0;
          (timeoutErr, vars) = PollUntilContextTimeout releases_condition first rest vars0;
          result =
            (case timeoutErr of
               Some e \<Rightarrow>
                 (case lastErrSeen vars of
                    Some le \<Rightarrow> Inl (FetchVersionInfoFailed le)
                  | None \<Rightarrow> Inl FetchVersionInfoTimedOut)
             | None \<Rightarrow>
                 (case bodyVar vars of
                    None \<Rightarrow> Inl NilBodyPanic
                  | Some b \<Rightarrow>
                      (case decoded b of
                         Inl msg \<Rightarrow> Inl (ParseVersionInfoFailed msg)
                       | Inr releases \<Rightarrow> Inr releases)))
      in (result, safeClose deferred closes))"

text \<open>
  \<open>GetLatestVersion\<close>.  \<open>reqErr\<close> is the error of \<open>http.NewRequestWithContext\<close>, if
  any.  \<open>first_stable\<close> is the loop over the releases.
\<close>

datatype latest_error =
    CreateRequestFailed string
  | FetchReleasesFailed releases_error
  | NoStableReleases

fun first_stable :: "GoRelease list \<Rightarrow> latest_error + string" where
  "first_stable [] = Inl NoStableReleases"
| "first_stable (release # releases) =
     (if Stable release \<and> HasPrefix (Version release) ''go''
      then Inr (TrimPrefix (Version release) ''go'')
      else first_stable releases)"

definition GetLatestVersion ::
  "string option \<Rightarrow> release_attempt \<Rightarrow> release_attempt list \<Rightarrow> nat list \<Rightarrow>
     (latest_error + string) \<times> nat list"
where
  "GetLatestVersion reqErr first rest closes =
     (case reqErr of
        Some err \<Rightarrow> (Inl (CreateRequestFailed err), closes)
      | None \<Rightarrow>
          (case getReleasesWithRetry first rest closes of
             (Inl err, closes') \<Rightarrow> (Inl (FetchReleasesFailed err), closes')
           | (Inr releases, closes') \<Rightarrow> (first_stable releases, closes')))"


text \<open>
  The errors of \<open>NeedsUpdate\<close>, one constructor per \<open>fmt.Errorf\<close> of the function;
  the argument is the version string named in the message and the wrapped
  \<open>strconv\<close> error.
\<close>

datatype version_error =
    InvalidVersionFormat
  | InvalidMajor string num_error
  | InvalidMinor string num_error
  | InvalidPatch string num_error

text \<open>
  \<open>Checker.NeedsUpdate(installed, latest)\<close>.  Go returns \<open>(false, err)\<close> on an
  error; the model returns \<open>Inl err\<close>.  The indices \<open>0\<close>, \<open>1\<close>, \<open>2\<close> are read only
  after both lengths were checked to be at least 3, as in the source.
\<close>

definition NeedsUpdate :: "string \<Rightarrow> string \<Rightarrow> version_error + bool" where
  "NeedsUpdate installed latest =
     (if installed = [] then Inr True
      else
        let installedSplit = Split installed CHR ''.'';
            latestSplit = Split latest CHR ''.''
        in
        if length installedSplit < 3 \<or> length latestSplit < 3 then Inl InvalidVersionFormat
        else
          (case Atoi (installedSplit ! 0) of
             Inl e \<Rightarrow> Inl (InvalidMajor installed e)
           | Inr majorInstalled \<Rightarrow>
          (case Atoi (latestSplit ! 0) of
             Inl e \<Rightarrow> Inl (InvalidMajor latest e)
           | Inr majorLatest \<Rightarrow>
          if majorInstalled < majorLatest then Inr True
          else if majorInstalled > majorLatest then Inr False
          else
          (case Atoi (installedSplit ! 1) of
             Inl e \<Rightarrow> Inl (InvalidMinor installed e)
           | Inr minorInstalled \<Rightarrow>
          (case Atoi (latestSplit ! 1) of
             Inl e \<Rightarrow> Inl (InvalidMinor latest e)
           | Inr minorLatest \<Rightarrow>
          if minorInstalled < minorLatest then Inr True
          else if minorInstalled > minorLatest then Inr False
          else
          (case Atoi (installedSplit ! 2) of
             Inl e \<Rightarrow> Inl (InvalidPatch installed e)
           | Inr patch1 \<Rightarrow>
          (case Atoi (latestSplit ! 2) of
             Inl e \<Rightarrow> Inl (InvalidPatch latest e)
           | Inr patch2 \<Rightarrow>
          if patch1 < patch2 then Inr True
          else if patch1 > patch2 then Inr False
          else Inr False)))))))"


fun version_less :: "int \<times> int \<times> int \<Rightarrow> int \<times> int \<times> int \<Rightarrow> bool" where
  "version_less (x, y, z) (x', y', z') =
     (x < x' \<or> (x = x' \<and> (y < y' \<or> (y = y' \<and> z < z'))))"


section \<open>pkg/gotools/download.go\<close>

text \<open>
  An open \<open>os.File\<close>: the bytes of the file and the offset of the descriptor.
  \<open>Seek(0, 0)\<close> moves the offset to the start; \<open>Truncate(n)\<close> cuts or extends the
  file to \<open>n\<close> bytes and leaves the offset alone.  A write replaces the bytes from
  the offset on and moves the offset; writing past the end fills the gap with zero
  bytes.  \<open>io.Copy\<close> writes nothing when there is nothing to copy.
\<close>

record os_file =
  data :: string
  pos :: nat

definition file_seek_start :: "os_file \<Rightarrow> os_file" where
  "file_seek_start f = f\<lparr>pos := 0\<rparr>"

definition file_truncate :: "nat \<Rightarrow> os_file \<Rightarrow> os_file" where
  "file_truncate n f =
     f\<lparr>data := take n (data f) @ replicate (n - length (data f)) (CHR 0x00)\<rparr>"

definition file_write :: "string \<Rightarrow> os_file \<Rightarrow> os_file" where
  "file_write bs f =
     (if bs = [] then f
      else \<lparr>data = take (pos f) (data f) @ replicate (pos f - length (data f)) (CHR 0x00)
                    @ bs @ drop (pos f + length bs) (data f),
            pos = pos f + length bs\<rparr>)"

text \<open>
  The environment's answer to one attempt of \<open>Download\<close>: the first call of the
  closure that fails, or the response.  \<open>DlResponded code bytes err\<close> is a response
  with status \<open>code\<close> on which \<open>io.Copy(output, resp.Body)\<close>, if it runs, writes
  \<open>bytes\<close> and returns \<open>err\<close>; when \<open>err\<close> is \<open>nil\<close> the bytes are the whole body.
\<close>

datatype download_attempt =
    DlSeekFails string
  | DlTruncateFails string
  | DlRequestFails string
  | DlDoFails string
  | DlResponded nat string "string option"

datatype attempt_failure =
    HTTPRequestFailed string
  | UnexpectedStatus nat
  | CopyBodyFailed string
  | ReadChecksumFailed string

datatype condition_error =
    ResetPositionFailed string
  | TruncateFailed string
  | NewRequestFailed string

datatype download_error =
    TempDirFailed string
  | CreateOutputFailed string
  | DownloadFailedWith attempt_failure
  | DownloadFailedAfterRetries "condition_error poll_error"

text \<open>The variables the closure of \<open>Download\<close> captures.\<close>

record download_vars =
  dl_output :: os_file
  dl_lastSeenErr :: "attempt_failure option"

definition download_condition ::
  "download_attempt \<Rightarrow> download_vars \<Rightarrow> (bool \<times> condition_error option) \<times> download_vars"
where
  "download_condition a vars =
     (let sought = file_seek_start (dl_output vars);
          emptied = file_truncate 0 sought
      in
      case a of
        DlSeekFails err \<Rightarrow> ((False, Some (ResetPositionFailed err)), vars)
      | DlTruncateFails err \<Rightarrow>
          ((False, Some (TruncateFailed err)), vars\<lparr>dl_output := sought\<rparr>)
      | DlRequestFails err \<Rightarrow>
          ((False, Some (NewRequestFailed err)), vars\<lparr>dl_output := emptied\<rparr>)
      | DlDoFails err \<Rightarrow>
          ((False, None),
           vars\<lparr>dl_output := emptied, dl_lastSeenErr := Some (HTTPRequestFailed err)\<rparr>)
      | DlResponded code bytes copyErr \<Rightarrow>
          if code \<noteq> 200 then
            ((False, None),
             vars\<lparr>dl_output := emptied, dl_lastSeenErr := Some (UnexpectedStatus code)\<rparr>)
          else
            (case copyErr of
               Some err \<Rightarrow>
                 ((False, None),
                  vars\<lparr>dl_output := file_write bytes emptied,
                       dl_lastSeenErr := Some (CopyBodyFailed err)\<rparr>)
             | None \<Rightarrow> ((True, None), vars\<lparr>dl_output := file_write bytes emptied\<rparr>)))"

text \<open>
  \<open>Download\<close>.  \<open>mkdirTemp\<close> is the result of \<open>os.MkdirTemp\<close> (an error, or the new
  directory) and \<open>createErr\<close> the error of \<open>os.Create\<close>, if any; \<open>os.Create\<close> yields
  an empty file at offset 0.  The result is the returned value and the file behind
  \<open>output\<close> (if it was created) as the call leaves it.
\<close>

definition Download ::
  "string + string \<Rightarrow> string option \<Rightarrow> string \<Rightarrow> download_attempt \<Rightarrow> download_attempt list \<Rightarrow>
     (download_error + string) \<times> os_file option"
where
  "Download mkdirTemp createErr version first rest =
     (case mkdirTemp of
        Inl err \<Rightarrow> (Inl (TempDirFailed err), None)
      | Inr tmpDir \<Rightarrow>
          let filename = ''go'' @ version @ ''.linux-amd64.tar.gz'';
              outputPath = Join [tmpDir, filename]
          in
          (case createErr of
             Some err \<Rightarrow> (Inl (CreateOutputFailed err), None)
           | None \<Rightarrow>
               let vars0 = \<lparr>dl_output = \<lparr>data = [], pos = 0\<rparr>, dl_lastSeenErr = None\<rparr>;
                   (err, vars) = PollUntilContextTimeout download_condition first rest vars0
               in
               (case err of
                  Some e \<Rightarrow>
                    (case dl_lastSeenErr vars of
                       Some le \<Rightarrow> (Inl (DownloadFailedWith le), Some (dl_output vars))
                     | None \<Rightarrow> (Inl (DownloadFailedAfterRetries e), Some (dl_output vars)))
                | None \<Rightarrow> (Inr outputPath, Some (dl_output vars)))))"

text \<open>
  \<open>fetchChecksum\<close>.  \<open>CkResponded code body\<close> is a response with status \<open>code\<close> on
  which \<open>io.ReadAll(resp.Body)\<close>, if it runs, returns \<open>body\<close> (an error, or the
  bytes).
\<close>

datatype checksum_attempt =
    CkRequestFails string
  | CkDoFails string
  | CkResponded nat "string + string"

datatype checksum_error =
    FetchFailedWith attempt_failure
  | FetchFailedAfterRetries "condition_error poll_error"

record checksum_vars =
  checksumBytes :: string
  ck_lastSeenErr :: "attempt_failure option"

definition checksum_condition ::
  "checksum_attempt \<Rightarrow> checksum_vars \<Rightarrow> (bool \<times> condition_error option) \<times> checksum_vars"
where
  "checksum_condition a vars =
     (case a of
        CkRequestFails err \<Rightarrow> ((False, Some (NewRequestFailed err)), vars)
      | CkDoFails err \<Rightarrow>
          ((False, None), vars\<lparr>ck_lastSeenErr := Some (HTTPRequestFailed err)\<rparr>)
      | CkResponded code body \<Rightarrow>
          if code \<noteq> 200 then
            ((False, None), vars\<lparr>ck_lastSeenErr := Some (UnexpectedStatus code)\<rparr>)
          else
            (case body of
               Inl err \<Rightarrow>
                 ((False, None), vars\<lparr>ck_lastSeenErr := Some (ReadChecksumFailed err)\<rparr>)
             | Inr bytes \<Rightarrow> ((True, None), vars\<lparr>checksumBytes := bytes\<rparr>)))"

definition fetchChecksum ::
  "checksum_attempt \<Rightarrow> checksum_attempt list \<Rightarrow> checksum_error + string"
where
  "fetchChecksum first rest =
     (let vars0 = \<lparr>checksumBytes = [], ck_lastSeenErr = None\<rparr>;
          (err, vars) = PollUntilContextTimeout checksum_condition first rest vars0
      in
      (case err of
         Some e \<Rightarrow>
           (case ck_lastSeenErr vars of
              Some le \<Rightarrow> Inl (FetchFailedWith le)
            | None \<Rightarrow> Inl (FetchFailedAfterRetries e))
       | None \<Rightarrow>
           let checksum = checksumBytes vars;
               parts = Fields checksum
           in if length parts > 0 then Inr (parts ! 0) else Inr (TrimSpace checksum)))"

text \<open>
  \<open>calculateChecksum\<close>.  The local file either cannot be opened, or fails while it
  is read, or yields its contents.  SHA-256 itself is not part of the repository:
  \<open>sha256\<close> stands for the function from the bytes streamed through
  \<open>sha256.New()\<close> to the digest \<open>hash.Sum(nil)\<close>.
\<close>

datatype local_file = OpenFails string | ReadFails string | Contents string

datatype calculate_error = OpenForChecksumFailed string | ReadForChecksumFailed string

definition calculateChecksum ::
  "(string \<Rightarrow> string) \<Rightarrow> local_file \<Rightarrow> calculate_error + string"
where
  "calculateChecksum sha256 f =
     (case f of
        OpenFails err \<Rightarrow> Inl (OpenForChecksumFailed err)
      | ReadFails err \<Rightarrow> Inl (ReadForChecksumFailed err)
      | Contents bytes \<Rightarrow> Inr (EncodeToString (sha256 bytes)))"

datatype verify_error =
    FetchChecksumFailed checksum_error
  | CalculateChecksumFailed calculate_error

definition VerifyChecksum ::
  "(string \<Rightarrow> string) \<Rightarrow> checksum_attempt \<Rightarrow> checksum_attempt list \<Rightarrow> local_file \<Rightarrow>
     verify_error + bool"
where
  "VerifyChecksum sha256 first rest f =
     (case fetchChecksum first rest of
        Inl err \<Rightarrow> Inl (FetchChecksumFailed err)
      | Inr expectedSum \<Rightarrow>
          (case calculateChecksum sha256 f of
             Inl err \<Rightarrow> Inl (CalculateChecksumFailed err)
           | Inr actualSum \<Rightarrow> Inr (expectedSum = actualSum)))"

text \<open>
  The specification's words for the digest published in a checksum body: its first
  white-space-delimited token, that is, the bytes of the runes after the leading
  white space up to the next white-space rune.  \<open>fetchChecksum\<close> above follows the
  source (\<open>strings.Fields\<close>, then \<open>strings.TrimSpace\<close>).
\<close>

definition first_token :: "string \<Rightarrow> string" where
  "first_token s =
     concat (map snd (takeWhile (\<lambda>x. \<not> IsSpace (fst x))
       (dropWhile (\<lambda>x. IsSpace (fst x)) (runes s))))"

text \<open>
  Attempts that fail in a way the closures report as retryable (\<open>return false,
  nil\<close>): a transport error, a status other than 200, or a body that fails while it
  is copied or read.
\<close>

definition dl_retryable :: "download_attempt \<Rightarrow> bool" where
  "dl_retryable a =
     (case a of
        DlDoFails err \<Rightarrow> True
      | DlResponded code bytes copyErr \<Rightarrow> code \<noteq> 200 \<or> copyErr \<noteq> None
      | _ \<Rightarrow> False)"

definition ck_retryable :: "checksum_attempt \<Rightarrow> bool" where
  "ck_retryable a =
     (case a of
        CkDoFails err \<Rightarrow> True
      | CkResponded code body \<Rightarrow> code \<noteq> 200 \<or> isl body
      | _ \<Rightarrow> False)"

section \<open>pkg/gotools/installer.go\<close>

record Installer =
  InstallDir :: string
  BinDir :: string

text \<open>
  The file system is the installer's environment.  The model records the operations
  the code asks of it, in order (the operation that fails is the last one recorded),
  and takes the operating system's answers as given: the result of \<open>os.Stat\<close> and
  \<open>os.Lstat\<close> on a path, and the error, if any, of an operation.  Each function
  below asks about a path, or requests an operation, at most once, so one answer per
  path and operation is enough.
\<close>

datatype fs_op =
    OpMkdirAll string nat
  | OpCreateFile string nat
  | OpWriteFile string string
  | OpSymlink string string
  | OpRemoveAll string
  | OpRemove string

datatype stat_result = StatOK | StatNotExist | StatOtherError string

record os_env =
  os_stat :: "string \<Rightarrow> stat_result"
  os_lstat :: "string \<Rightarrow> stat_result"
  os_fails :: "fs_op \<Rightarrow> string option"

datatype install_error =
    CreateInstallDirFailed string string
  | CreateBinDirFailed string string
  | RemoveInstallationFailed string
  | RemoveGoSymlinkFailed string
  | RemoveGofmtSymlinkFailed string
  | OpenTarballFailed string
  | GzipReaderFailed string
  | ExtractionCancelled
  | ReadTarHeaderFailed string
  | PathTraversalAttempt string
  | CreateDirectoryFailed string string
  | CreateParentFailed string string
  | CreateFileFailed string string
  | WriteFileFailed string string
  | CreateSymlinkParentFailed string string
  | CreateSymlinkFailed string string string
  | GoSymlinkFailed string
  | GofmtSymlinkFailed string

text \<open>\<open>ensureDirectories\<close>; the mode \<open>0755\<close> is 493.\<close>

definition ensureDirectories :: "Installer \<Rightarrow> os_env \<Rightarrow> fs_op list \<times> install_error option" where
  "ensureDirectories i env =
     (case os_fails env (OpMkdirAll (InstallDir i) 493) of
        Some err \<Rightarrow>
          ([OpMkdirAll (InstallDir i) 493], Some (CreateInstallDirFailed (InstallDir i) err))
      | None \<Rightarrow>
          (case os_fails env (OpMkdirAll (BinDir i) 493) of
             Some err \<Rightarrow>
               ([OpMkdirAll (InstallDir i) 493, OpMkdirAll (BinDir i) 493],
                Some (CreateBinDirFailed (BinDir i) err))
           | None \<Rightarrow> ([OpMkdirAll (InstallDir i) 493, OpMkdirAll (BinDir i) 493], None)))"

text \<open>
  \<open>removeExisting\<close>.  \<open>os.IsNotExist(err)\<close> holds for the answer \<open>StatNotExist\<close> only;
  \<open>err == nil\<close> after \<open>os.Lstat\<close> is the answer \<open>StatOK\<close>.
\<close>

definition removeExisting :: "Installer \<Rightarrow> os_env \<Rightarrow> fs_op list \<times> install_error option" where
  "removeExisting i env =
     (let goDir = Join [InstallDir i, ''go''] in
      if os_stat env goDir = StatNotExist then ([], None)
      else
        (case os_fails env (OpRemoveAll goDir) of
           Some err \<Rightarrow> ([OpRemoveAll goDir], Some (RemoveInstallationFailed err))
         | None \<Rightarrow>
             let goLink = Join [BinDir i, ''go''];
                 ops1 = (if os_lstat env goLink = StatOK then [OpRemove goLink] else []);
                 err1 = (if os_lstat env goLink = StatOK then os_fails env (OpRemove goLink)
                         else None)
             in
             (case err1 of
                Some err \<Rightarrow> (OpRemoveAll goDir # ops1, Some (RemoveGoSymlinkFailed err))
              | None \<Rightarrow>
                  let goFmtLink = Join [BinDir i, ''gofmt''];
                      ops2 = (if os_lstat env goFmtLink = StatOK then [OpRemove goFmtLink]
                              else []);
                      err2 = (if os_lstat env goFmtLink = StatOK
                              then os_fails env (OpRemove goFmtLink) else None)
                  in
                  (case err2 of
                     Some err \<Rightarrow>
                       (OpRemoveAll goDir # ops1 @ ops2, Some (RemoveGofmtSymlinkFailed err))
                   | None \<Rightarrow> (OpRemoveAll goDir # ops1 @ ops2, None)))))"

text \<open>
  A tar stream as \<open>tarReader.Next()\<close> delivers it: headers, each with the data of its
  entry, or an error in place of a header; the end of the list is \<open>io.EOF\<close>.  The
  type flags are \<open>tar.TypeReg = '0'\<close>, \<open>tar.TypeSymlink = '2'\<close> and
  \<open>tar.TypeDir = '5'\<close>.
\<close>

record tar_header =
  Name :: string
  Typeflag :: char
  Mode :: nat
  Linkname :: string

datatype tar_item = Header tar_header string | HeaderError string

text \<open>The \<open>switch header.Typeflag\<close> of \<open>extractTarball\<close> for one entry.\<close>

definition extract_entry ::
  "os_env \<Rightarrow> tar_header \<Rightarrow> string \<Rightarrow> string \<Rightarrow> fs_op list \<times> install_error option"
where
  "extract_entry env header content target =
     (if Typeflag header = CHR ''5'' then
        (case os_fails env (OpMkdirAll target (Mode header)) of
           Some err \<Rightarrow>
             ([OpMkdirAll target (Mode header)], Some (CreateDirectoryFailed target err))
         | None \<Rightarrow> ([OpMkdirAll target (Mode header)], None))
      else if Typeflag header = CHR ''0'' then
        (case os_fails env (OpMkdirAll (Dir target) 493) of
           Some err \<Rightarrow> ([OpMkdirAll (Dir target) 493], Some (CreateParentFailed target err))
         | None \<Rightarrow>
             (case os_fails env (OpCreateFile target (Mode header)) of
                Some err \<Rightarrow>
                  ([OpMkdirAll (Dir target) 493, OpCreateFile target (Mode header)],
                   Some (CreateFileFailed target err))
              | None \<Rightarrow>
                  (case os_fails env (OpWriteFile target content) of
                     Some err \<Rightarrow>
                       ([OpMkdirAll (Dir target) 493, OpCreateFile target (Mode header),
                         OpWriteFile target content],
                        Some (WriteFileFailed target err))
                   | None \<Rightarrow>
                       ([OpMkdirAll (Dir target) 493, OpCreateFile target (Mode header),
                         OpWriteFile target content],
                        None))))
      else if Typeflag header = CHR ''2'' then
        (case os_fails env (OpMkdirAll (Dir target) 493) of
           Some err \<Rightarrow>
             ([OpMkdirAll (Dir target) 493], Some (CreateSymlinkParentFailed target err))
         | None \<Rightarrow>
             (case os_fails env (OpSymlink (Linkname header) target) of
                Some err \<Rightarrow>
                  ([OpMkdirAll (Dir target) 493, OpSymlink (Linkname header) target],
                   Some (CreateSymlinkFailed target (Linkname header) err))
              | None \<Rightarrow>
                  ([OpMkdirAll (Dir target) 493, OpSymlink (Linkname header) target], None)))
      else ([], None))"

text \<open>
  The loop of \<open>extractTarball\<close>.  \<open>cancelAfter\<close> says after how many headers the
  context is done (\<open>None\<close>: never); the loop looks at the context before it reads
  each header.
\<close>

fun extract_loop ::
  "Installer \<Rightarrow> os_env \<Rightarrow> nat option \<Rightarrow> tar_item list \<Rightarrow> fs_op list \<times> install_error option"
where
  "extract_loop i env cancelAfter [] =
     (if cancelAfter = Some 0 then ([], Some ExtractionCancelled) else ([], None))"
| "extract_loop i env cancelAfter (item # items) =
     (if cancelAfter = Some 0 then ([], Some ExtractionCancelled)
      else
        (case item of
           HeaderError err \<Rightarrow> ([], Some (ReadTarHeaderFailed err))
         | Header header content \<Rightarrow>
             let target = Join [InstallDir i, Name header] in
             if \<not> HasPrefix target (InstallDir i)
             then ([], Some (PathTraversalAttempt (Name header)))
             else
               (case extract_entry env header content target of
                  (ops, Some err) \<Rightarrow> (ops, Some err)
                | (ops, None) \<Rightarrow>
                    (case extract_loop i env (map_option (\<lambda>n. n - 1) cancelAfter) items of
                       (ops', r) \<Rightarrow> (ops @ ops', r)))))"

definition extractTarball ::
  "Installer \<Rightarrow> os_env \<Rightarrow> string option \<Rightarrow> string option \<Rightarrow> nat option \<Rightarrow> tar_item list \<Rightarrow>
     fs_op list \<times> install_error option"
where
  "extractTarball i env openErr gzipErr cancelAfter items =
     (case openErr of
        Some err \<Rightarrow> ([], Some (OpenTarballFailed err))
      | None \<Rightarrow>
          (case gzipErr of
             Some err \<Rightarrow> ([], Some (GzipReaderFailed err))
           | None \<Rightarrow> extract_loop i env cancelAfter items))"

text \<open>\<open>createSymlinks\<close>.\<close>

definition createSymlinks :: "Installer \<Rightarrow> os_env \<Rightarrow> fs_op list \<times> install_error option" where
  "createSymlinks i env =
     (let goSrc = Join [InstallDir i, ''go'', ''bin'', ''go''];
          goDst = Join [BinDir i, ''go'']
      in
      case os_fails env (OpSymlink goSrc goDst) of
        Some err \<Rightarrow> ([OpSymlink goSrc goDst], Some (GoSymlinkFailed err))
      | None \<Rightarrow>
          let goFmtSrc = Join [InstallDir i, ''go'', ''bin'', ''gofmt''];
              goFmtDst = Join [BinDir i, ''gofmt'']
          in
          (case os_fails env (OpSymlink goFmtSrc goFmtDst) of
             Some err \<Rightarrow>
               ([OpSymlink goSrc goDst, OpSymlink goFmtSrc goFmtDst],
                Some (GofmtSymlinkFailed err))
           | None \<Rightarrow> ([OpSymlink goSrc goDst, OpSymlink goFmtSrc goFmtDst], None)))"

text \<open>\<open>Install\<close>: the four stages in order, each fatal on error.\<close>

datatype install_failure =
    InstallDirectoriesFailed install_error
  | RemoveExistingFailed install_error
  | ExtractionFailed install_error
  | SymlinksFailed install_error

definition Install ::
  "Installer \<Rightarrow> os_env \<Rightarrow> string option \<Rightarrow> string option \<Rightarrow> nat option \<Rightarrow> tar_item list \<Rightarrow>
     fs_op list \<times> install_failure option"
where
  "Install i env openErr gzipErr cancelAfter items =
     (case ensureDirectories i env of
        (ops1, Some err) \<Rightarrow> (ops1, Some (InstallDirectoriesFailed err))
      | (ops1, None) \<Rightarrow>
     (case removeExisting i env of
        (ops2, Some err) \<Rightarrow> (ops1 @ ops2, Some (RemoveExistingFailed err))
      | (ops2, None) \<Rightarrow>
     (case extractTarball i env openErr gzipErr cancelAfter items of
        (ops3, Some err) \<Rightarrow> (ops1 @ ops2 @ ops3, Some (ExtractionFailed err))
      | (ops3, None) \<Rightarrow>
     (case createSymlinks i env of
        (ops4, Some err) \<Rightarrow> (ops1 @ ops2 @ ops3 @ ops4, Some (SymlinksFailed err))
      | (ops4, None) \<Rightarrow> (ops1 @ ops2 @ ops3 @ ops4, None)))))"

text \<open>
  \<open>runGoCommand\<close>.  The subprocess is the environment: whether the pipe and the
  start succeed, what \<open>io.ReadAll(r)\<close> returns, and which case of the \<open>select\<close> is
  taken: \<open>cmd.Wait()\<close> returning its error (\<open>nil\<close> for exit status 0), or the
  context being done first.  \<open>output\<close> is the contents of the \<open>strings.Builder\<close> the
  caller passes in; the function returns its error and the builder's contents.
\<close>

datatype wait_outcome = Exited "string option" | ContextDoneFirst string

record subprocess =
  pipeErr :: "string option"
  startErr :: "string option"
  readAll :: "string + string"
  waited :: wait_outcome

datatype run_error =
    CreatePipeFailed string
  | StartCommandFailed string
  | ReadOutputFailed string
  | CommandFailed string
  | ContextError string

definition runGoCommand :: "subprocess \<Rightarrow> string \<Rightarrow> run_error option \<times> string" where
  "runGoCommand proc output =
     (case pipeErr proc of
        Some err \<Rightarrow> (Some (CreatePipeFailed err), output)
      | None \<Rightarrow>
     (case startErr proc of
        Some err \<Rightarrow> (Some (StartCommandFailed err), output)
      | None \<Rightarrow>
     (case readAll proc of
        Inl err \<Rightarrow> (Some (ReadOutputFailed err), output)
      | Inr outputBytes \<Rightarrow>
     (case waited proc of
        Exited (Some err) \<Rightarrow> (Some (CommandFailed err), output)
      | ContextDoneFirst err \<Rightarrow> (Some (ContextError err), output)
      | Exited None \<Rightarrow> (None, output @ outputBytes)))))"

text \<open>
  \<open>Verify\<close>.  The error of a failed run carries \<open>output.String()\<close> and the error of
  \<open>runGoCommand\<close>.
\<close>

datatype verification_error =
    GoBinaryNotFound string
  | VerificationFailed string run_error

definition Verify :: "Installer \<Rightarrow> os_env \<Rightarrow> subprocess \<Rightarrow> verification_error option" where
  "Verify i env proc =
     (let goPath = Join [BinDir i, ''go''] in
      if os_stat env goPath = StatNotExist then Some (GoBinaryNotFound goPath)
      else
        (case runGoCommand proc [] of
           (Some err, output) \<Rightarrow> Some (VerificationFailed output err)
         | (None, output) \<Rightarrow> None))"

text \<open>
  The specification's containment: the normalized target is the normalized install
  root or lies beneath it, element by element.
\<close>

definition within_root :: "string \<Rightarrow> string \<Rightarrow> bool" where
  "within_root root target =
     (let r = path_elems (Clean root); t = path_elems (Clean target)
      in length r \<le> length t \<and> take (length r) t = r)"

section \<open>cmd/updatego/main.go\<close>







section \<open>Properties of NeedsUpdate\<close>

lemma Split_not_Nil: "Split s sep \<noteq> []"
  by (induction s) (auto split: list.splits)

lemma Split_three_not_empty: "Split s sep = a # b # c # rest \<Longrightarrow> s \<noteq> []"
  by auto

lemma NeedsUpdate_three_components:
  assumes i: "Split installed CHR ''.'' = a # b # c # rest"
    and l: "Split latest CHR ''.'' = a' # b' # c' # rest'"
    and "Atoi a = Inr x" "Atoi b = Inr y" "Atoi c = Inr z"
    and "Atoi a' = Inr x'" "Atoi b' = Inr y'" "Atoi c' = Inr z'"
  shows "NeedsUpdate installed latest = Inr (version_less (x, y, z) (x', y', z'))"
proof -
  have "installed \<noteq> []" using i by (rule Split_three_not_empty)
  then show ?thesis
    using assms by (simp add: NeedsUpdate_def Let_def nth_Cons')
qed








text \<open>
  Claim C10: \<open>NeedsUpdate\<close> accepts version strings of more than three
  dot-separated components.  For every pair of strings whose first three components
  are integers, the result is the comparison of those two triples, without an
  error: the components after the third (\<open>rest\<close>, \<open>rest'\<close>) are never read, whatever
  they contain.
\<close>

theorem NeedsUpdate_ignores_extra_components:
  assumes "Split installed CHR ''.'' = a # b # c # rest"
    and "Split latest CHR ''.'' = a' # b' # c' # rest'"
    and "Atoi a = Inr x" "Atoi b = Inr y" "Atoi c = Inr z"
    and "Atoi a' = Inr x'" "Atoi b' = Inr y'" "Atoi c' = Inr z'"
  shows "NeedsUpdate installed latest = Inr (version_less (x, y, z) (x', y', z'))"
  using assms by (rule NeedsUpdate_three_components)

text \<open>
  \<open>NeedsUpdate("1.2.3.9", "1.2.3") = (false, nil)\<close>, and fourth components that are
  not integers cause no error.
\<close>

theorem NeedsUpdate_ignores_extra_components_witness:
  "NeedsUpdate ''1.2.3.9'' ''1.2.3'' = Inr False \<and>
   NeedsUpdate ''1.2.3.x'' ''1.2.4.y.z'' = Inr True"
proof -
  have a: "Atoi ''1'' = Inr 1" "Atoi ''2'' = Inr 2" "Atoi ''3'' = Inr 3" "Atoi ''4'' = Inr 4"
    by (simp_all add: Atoi_def ParseInt_def ParseUint_def isDigit_def byte_def maxUint64_def)
  have 1: "NeedsUpdate ''1.2.3.9'' ''1.2.3'' = Inr (version_less (1, 2, 3) (1, 2, 3))"
    using NeedsUpdate_ignores_extra_components
      [of "''1.2.3.9''" "''1''" "''2''" "''3''" "[''9'']"
          "''1.2.3''" "''1''" "''2''" "''3''" "[]" 1 2 3 1 2 3]
    by (simp add: a)
  have 2: "NeedsUpdate ''1.2.3.x'' ''1.2.4.y.z'' = Inr (version_less (1, 2, 3) (1, 2, 4))"
    using NeedsUpdate_ignores_extra_components
      [of "''1.2.3.x''" "''1''" "''2''" "''3''" "[''x'']"
          "''1.2.4.y.z''" "''1''" "''2''" "''4''" "[''y'', ''z'']" 1 2 3 1 2 4]
    by (simp add: a)
  show ?thesis using 1 2 by simp
qed

section \<open>Properties of the version resolver\<close>

lemma first_stable_found:
  assumes "\<forall>x\<in>set pre. \<not> (Stable x \<and> HasPrefix (Version x) ''go'')"
    and "Stable r" and "Version r = ''go'' @ v"
  shows "first_stable (pre @ r # post) = Inr v"
  using assms by (induction pre) (auto simp: HasPrefix_def TrimPrefix_def)

lemma first_stable_none:
  assumes "\<forall>x\<in>set releases. \<not> (Stable x \<and> HasPrefix (Version x) ''go'')"
  shows "first_stable releases = Inl NoStableReleases"
  using assms by (induction releases) auto

lemma GetLatestVersion_decoded:
  assumes "getReleasesWithRetry first rest closes = (Inr releases, closes')"
  shows "fst (GetLatestVersion None first rest closes) = first_stable releases"
  using assms by (simp add: GetLatestVersion_def)

text \<open>
  Claim C5: for every decoded feed array, \<open>GetLatestVersion\<close> returns the identifier,
  with the prefix \<open>go\<close> stripped, of the first entry in feed order that is stable and
  carries the prefix, whatever entries follow it; and it fails with ``no stable
  release found'' when no entry satisfies both conditions.
\<close>

theorem GetLatestVersion_first_stable:
  assumes "getReleasesWithRetry first rest closes = (Inr releases, closes')"
  shows "(\<forall>pre r post v.
            releases = pre @ r # post \<and>
            (\<forall>x\<in>set pre. \<not> (Stable x \<and> HasPrefix (Version x) ''go'')) \<and>
            Stable r \<and> Version r = ''go'' @ v \<longrightarrow>
            fst (GetLatestVersion None first rest closes) = Inr v) \<and>
         ((\<forall>x\<in>set releases. \<not> (Stable x \<and> HasPrefix (Version x) ''go'')) \<longrightarrow>
            fst (GetLatestVersion None first rest closes) = Inl NoStableReleases)"
proof (intro conjI allI impI)
  fix pre r post v
  assume "releases = pre @ r # post \<and>
            (\<forall>x\<in>set pre. \<not> (Stable x \<and> HasPrefix (Version x) ''go'')) \<and>
            Stable r \<and> Version r = ''go'' @ v"
  then have "first_stable releases = Inr v"
    using first_stable_found [of pre r v post] by simp
  then show "fst (GetLatestVersion None first rest closes) = Inr v"
    using GetLatestVersion_decoded [OF assms] by simp
next
  assume "\<forall>x\<in>set releases. \<not> (Stable x \<and> HasPrefix (Version x) ''go'')"
  then have "first_stable releases = Inl NoStableReleases"
    by (rule first_stable_none)
  then show "fst (GetLatestVersion None first rest closes) = Inl NoStableReleases"
    using GetLatestVersion_decoded [OF assms] by simp
qed

text \<open>
  The feed of the specification and of the repository's test: the first stable entry
  wins, and a feed of pre-releases only has no stable release.
\<close>

theorem GetLatestVersion_first_stable_witness:
  "fst (GetLatestVersion None
      (Responded 200 \<lparr>rid = 0, decoded = Inr
         [\<lparr>Version = ''go1.17.1'', Stable = True\<rparr>,
          \<lparr>Version = ''go1.16.8'', Stable = True\<rparr>,
          \<lparr>Version = ''go1.18beta1'', Stable = False\<rparr>]\<rparr>) [] []) = Inr ''1.17.1'' \<and>
   fst (GetLatestVersion None
      (Responded 200 \<lparr>rid = 0, decoded = Inr
         [\<lparr>Version = ''go1.18beta1'', Stable = False\<rparr>]\<rparr>) [] []) = Inl NoStableReleases"
proof -
  let ?feed = "[\<lparr>Version = ''go1.17.1'', Stable = True\<rparr>,
          \<lparr>Version = ''go1.16.8'', Stable = True\<rparr>,
          \<lparr>Version = ''go1.18beta1'', Stable = False\<rparr>]"
  let ?beta = "[\<lparr>Version = ''go1.18beta1'', Stable = False\<rparr>]"
  have 1: "getReleasesWithRetry (Responded 200 \<lparr>rid = 0, decoded = Inr ?feed\<rparr>) [] []
      = (Inr ?feed, [])"
    by (simp add: getReleasesWithRetry_def PollUntilContextTimeout_def releases_condition_def)
  have 2: "getReleasesWithRetry (Responded 200 \<lparr>rid = 0, decoded = Inr ?beta\<rparr>) [] []
      = (Inr ?beta, [])"
    by (simp add: getReleasesWithRetry_def PollUntilContextTimeout_def releases_condition_def)
  have a: "fst (GetLatestVersion None (Responded 200 \<lparr>rid = 0, decoded = Inr ?feed\<rparr>) [] [])
      = Inr ''1.17.1''"
    using GetLatestVersion_first_stable [OF 1, THEN conjunct1, rule_format,
        of "[]" "\<lparr>Version = ''go1.17.1'', Stable = True\<rparr>"
          "[\<lparr>Version = ''go1.16.8'', Stable = True\<rparr>,
            \<lparr>Version = ''go1.18beta1'', Stable = False\<rparr>]" "''1.17.1''"]
    by simp
  have b: "fst (GetLatestVersion None (Responded 200 \<lparr>rid = 0, decoded = Inr ?beta\<rparr>) [] [])
      = Inl NoStableReleases"
    using GetLatestVersion_first_stable [OF 2, THEN conjunct2] by simp
  show ?thesis using a b by simp
qed

text \<open>
  No path of \<open>getReleasesWithRetry\<close> calls \<open>Close\<close>: the deferred \<open>safeClose\<close> holds the
  \<open>nil\<close> reader it was given when the \<open>defer\<close> statement ran.
\<close>

lemma getReleasesWithRetry_closes_nothing:
  "snd (getReleasesWithRetry first rest closes) = closes"
  by (simp add: getReleasesWithRetry_def Let_def split: prod.splits)

text \<open>
  Claim C6 says that the body obtained during a successful poll attempt is closed
  exactly once when the call returns.  On the code it is never closed.  With one
  successful attempt whose body is reader 7, once with a feed that decodes and once
  with one that does not, the call returns and the log of \<open>Close\<close> calls is still
  empty.
\<close>

theorem getReleasesWithRetry_body_not_closed:
  "getReleasesWithRetry
      (Responded 200 \<lparr>rid = 7, decoded = Inr [\<lparr>Version = ''go1.17.1'', Stable = True\<rparr>]\<rparr>)
      [] [] = (Inr [\<lparr>Version = ''go1.17.1'', Stable = True\<rparr>], []) \<and>
   count_list (snd (getReleasesWithRetry
      (Responded 200 \<lparr>rid = 7, decoded = Inr [\<lparr>Version = ''go1.17.1'', Stable = True\<rparr>]\<rparr>)
      [] [])) 7 = 0 \<and>
   getReleasesWithRetry
      (Responded 200 \<lparr>rid = 7, decoded = Inl ''unexpected end of JSON input''\<rparr>)
      [] [] = (Inl (ParseVersionInfoFailed ''unexpected end of JSON input''), []) \<and>
   count_list (snd (getReleasesWithRetry
      (Responded 200 \<lparr>rid = 7, decoded = Inl ''unexpected end of JSON input''\<rparr>)
      [] [])) 7 = 0"
  by (simp add: getReleasesWithRetry_def PollUntilContextTimeout_def releases_condition_def)

section \<open>Properties of the downloader\<close>

text \<open>Decoding: an ASCII byte is a rune of its own, and the runes of a string partition it.\<close>

lemma runes_ascii: "byte c < 128 \<Longrightarrow> runes (c # cs) = (byte c, [c]) # runes cs"
  by (simp add: DecodeRuneInString.simps)

lemma DecodeRune_width:
  "1 \<le> snd (DecodeRuneInString (c # cs)) \<and> snd (DecodeRuneInString (c # cs)) \<le> length (c # cs)"
  by (auto simp add: DecodeRuneInString.simps Let_def Suc_le_eq)

lemma concat_runes: "concat (map snd (runes s)) = s"
proof (induction s rule: runes.induct)
  case 1
  then show ?case by simp
next
  case (2 c cs)
  obtain r w where d: "DecodeRuneInString (c # cs) = (r, w)" by (cases "DecodeRuneInString (c # cs)")
  with DecodeRune_width [of c cs] have w: "1 \<le> w" by simp
  then have "take w (c # cs) @ drop (w - 1) cs = c # cs"
    by (cases w) simp_all
  with 2 d show ?case by simp
qed


text \<open>
  The first field that \<open>strings.Fields\<close> returns is the first token, and there is
  no field exactly when the string is white space only; then \<open>strings.TrimSpace\<close>
  is empty, as the first token is.
\<close>

lemma fields_loop_Some:
  "fields_loop rs (Some f) =
     (f @ concat (map snd (takeWhile (\<lambda>x. \<not> IsSpace (fst x)) rs)))
       # fields_loop (dropWhile (\<lambda>x. \<not> IsSpace (fst x)) rs) None"
  by (induction rs arbitrary: f) auto

lemma fields_loop_None_all_space:
  "dropWhile (\<lambda>x. IsSpace (fst x)) rs = [] \<Longrightarrow> fields_loop rs None = []"
  by (induction rs) (auto split: if_splits)

lemma fields_loop_None_token:
  "dropWhile (\<lambda>x. IsSpace (fst x)) rs \<noteq> [] \<Longrightarrow>
   \<exists>more. fields_loop rs None =
     concat (map snd (takeWhile (\<lambda>x. \<not> IsSpace (fst x))
       (dropWhile (\<lambda>x. IsSpace (fst x)) rs))) # more"
proof (induction rs)
  case Nil
  then show ?case by simp
next
  case (Cons x rs)
  obtain r bs where x: "x = (r, bs)" by (cases x)
  show ?case
  proof (cases "IsSpace r")
    case True
    with Cons x show ?thesis by simp
  next
    case False
    with x show ?thesis by (simp add: fields_loop_Some)
  qed
qed

lemma published_digest:
  "(if length (Fields s) > 0 then Fields s ! 0 else TrimSpace s) = first_token s"
proof (cases "dropWhile (\<lambda>x. IsSpace (fst x)) (runes s) = []")
  case True
  then have "Fields s = []"
    unfolding Fields_def by (rule fields_loop_None_all_space)
  moreover have "TrimSpace s = []"
    unfolding TrimSpace_def True by simp
  moreover have "first_token s = []"
    unfolding first_token_def True by simp
  ultimately show ?thesis by simp
next
  case False
  then obtain more where "Fields s = first_token s # more"
    unfolding Fields_def first_token_def using fields_loop_None_token by blast
  then show ?thesis by simp
qed

lemma first_token_no_space:
  assumes "\<forall>x\<in>set (runes s). \<not> IsSpace (fst x)"
  shows "first_token s = s"
proof -
  have d: "dropWhile (\<lambda>x. IsSpace (fst x)) (runes s) = runes s"
    using assms by (cases "runes s") auto
  have t: "takeWhile (\<lambda>x. \<not> IsSpace (fst x)) (runes s) = runes s"
    using assms by (simp add: takeWhile_eq_all_conv)
  show ?thesis
    unfolding first_token_def d t by (rule concat_runes)
qed

text \<open>
  After \<open>Seek(0, 0)\<close> and \<open>Truncate(0)\<close> a copy leaves the file with the copied bytes
  and nothing else, whatever it held before.
\<close>

lemma file_reset_write:
  "file_write bytes (file_truncate 0 (file_seek_start f)) = \<lparr>data = bytes, pos = length bytes\<rparr>"
  by (simp add: file_write_def file_truncate_def file_seek_start_def)

lemma poll_loop_download:
  assumes "list_all dl_retryable pre"
  shows "fst (poll_loop download_condition (pre @ DlResponded 200 bytes None # post) vars) = None \<and>
     dl_output (snd (poll_loop download_condition (pre @ DlResponded 200 bytes None # post) vars))
       = \<lparr>data = bytes, pos = length bytes\<rparr>"
  using assms
proof (induction pre arbitrary: vars)
  case Nil
  show ?case by (simp add: download_condition_def Let_def file_reset_write)
next
  case (Cons a pre)
  then have r: "dl_retryable a" and p: "list_all dl_retryable pre" by simp_all
  from r have "\<exists>vars'. download_condition a vars = ((False, None), vars')"
    by (cases a) (auto simp: dl_retryable_def download_condition_def Let_def split: option.splits)
  then obtain vars' where "download_condition a vars = ((False, None), vars')" ..
  then show ?case using Cons.IH [OF p, of vars'] by simp
qed

lemma download_condition_resets:
  "dl_output (snd (download_condition (DlResponded code partial err) vars)) =
     (if code = 200 then \<lparr>data = partial, pos = length partial\<rparr> else \<lparr>data = [], pos = 0\<rparr>)"
proof -
  have e: "file_truncate 0 (file_seek_start (dl_output vars)) = \<lparr>data = [], pos = 0\<rparr>"
    by (simp add: file_truncate_def file_seek_start_def)
  show ?thesis
    by (cases err) (simp_all add: download_condition_def Let_def e file_write_def)
qed

lemma Download_after_retries:
  assumes "first # rest = pre @ DlResponded 200 bytes None # post"
    and "list_all dl_retryable pre"
  shows "Download (Inr tmpDir) None version first rest =
           (Inr (Join [tmpDir, ''go'' @ version @ ''.linux-amd64.tar.gz'']),
            Some \<lparr>data = bytes, pos = length bytes\<rparr>)"
proof -
  let ?v0 = "\<lparr>dl_output = \<lparr>data = [], pos = 0\<rparr>, dl_lastSeenErr = None\<rparr>"
  obtain err vars where p: "poll_loop download_condition (first # rest) ?v0 = (err, vars)"
    by (cases "poll_loop download_condition (first # rest) ?v0")
  have "fst (poll_loop download_condition (first # rest) ?v0) = None \<and>
      dl_output (snd (poll_loop download_condition (first # rest) ?v0))
        = \<lparr>data = bytes, pos = length bytes\<rparr>"
    unfolding assms(1) using assms(2) by (rule poll_loop_download)
  then have "err = None" "dl_output vars = \<lparr>data = bytes, pos = length bytes\<rparr>"
    unfolding p by simp_all
  with p show ?thesis
    by (simp add: Download_def PollUntilContextTimeout_def Let_def del: poll_loop.simps)
qed

text \<open>
  Conversely, a poll that ends without an error ended in a successful attempt after
  retryable ones, and the file is that attempt's body.
\<close>

lemma poll_loop_download_success:
  assumes "poll_loop download_condition attempts vars = (None, vars')"
  shows "\<exists>pre bytes post. attempts = pre @ DlResponded 200 bytes None # post \<and>
           list_all dl_retryable pre \<and>
           dl_output vars' = \<lparr>data = bytes, pos = length bytes\<rparr>"
  using assms
proof (induction attempts arbitrary: vars)
  case Nil
  then show ?case by simp
next
  case (Cons a attempts)
  show ?case
  proof (cases "dl_retryable a")
    case True
    then have "\<exists>v. download_condition a vars = ((False, None), v)"
      by (cases a) (auto simp: dl_retryable_def download_condition_def Let_def split: option.splits)
    then obtain v where v: "download_condition a vars = ((False, None), v)" ..
    with Cons.prems have "poll_loop download_condition attempts v = (None, vars')" by simp
    from Cons.IH [OF this] obtain pre bytes post where
      "attempts = pre @ DlResponded 200 bytes None # post" "list_all dl_retryable pre"
      "dl_output vars' = \<lparr>data = bytes, pos = length bytes\<rparr>" by blast
    with True have "a # attempts = (a # pre) @ DlResponded 200 bytes None # post \<and>
           list_all dl_retryable (a # pre) \<and>
           dl_output vars' = \<lparr>data = bytes, pos = length bytes\<rparr>" by simp
    then show ?thesis by blast
  next
    case False
    with Cons.prems obtain bytes where a: "a = DlResponded 200 bytes None"
      by (cases a) (auto simp: dl_retryable_def download_condition_def Let_def split: option.splits if_splits)
    with Cons.prems have "dl_output vars' = \<lparr>data = bytes, pos = length bytes\<rparr>"
      using download_condition_resets [of 200 bytes None vars]
      by (auto simp: download_condition_def Let_def)
    with a have "a # attempts = [] @ DlResponded 200 bytes None # attempts \<and>
           list_all dl_retryable [] \<and>
           dl_output vars' = \<lparr>data = bytes, pos = length bytes\<rparr>" by simp
    then show ?thesis by blast
  qed
qed

lemma Download_success_only:
  assumes "Download mkdirTemp createErr version first rest = (Inr path, fo)"
  shows "\<exists>pre bytes post. first # rest = pre @ DlResponded 200 bytes None # post \<and>
           list_all dl_retryable pre \<and>
           fo = Some \<lparr>data = bytes, pos = length bytes\<rparr>"
proof -
  let ?v0 = "\<lparr>dl_output = \<lparr>data = [], pos = 0\<rparr>, dl_lastSeenErr = None\<rparr>"
  obtain err vars where p: "poll_loop download_condition (first # rest) ?v0 = (err, vars)"
    by (cases "poll_loop download_condition (first # rest) ?v0")
  from assms p have "err = None \<and> fo = Some (dl_output vars)"
    by (auto simp: Download_def PollUntilContextTimeout_def Let_def
        simp del: poll_loop.simps split: sum.splits option.splits)
  with p poll_loop_download_success [of "first # rest" ?v0 vars] show ?thesis
    by auto
qed


text \<open>
  Claim C4: every attempt of \<open>Download\<close> resets the destination file to empty (seek
  to offset 0, truncate to length 0) before it copies the response body: whatever
  the file held before an attempt, after the attempt it holds the bytes that attempt
  copied and nothing else.  So for every sequence of attempts that fail in a
  retryable way, each possibly leaving a partial body in the file, followed by an
  attempt that succeeds, \<open>Download\<close> returns the path of the file, and the file
  contains exactly the bytes of the successful response body.  And whenever
  \<open>Download\<close> returns a path, the attempts were of that shape and the file is the
  body of the one successful response.
\<close>

theorem Download_file_is_successful_body:
  "(first # rest = pre @ DlResponded 200 bytes None # post \<and> list_all dl_retryable pre \<longrightarrow>
      Download (Inr tmpDir) None version first rest =
        (Inr (Join [tmpDir, ''go'' @ version @ ''.linux-amd64.tar.gz'']),
         Some \<lparr>data = bytes, pos = length bytes\<rparr>)) \<and>
   (\<forall>path fo. Download mkdirTemp createErr version first rest = (Inr path, fo) \<longrightarrow>
      (\<exists>pre' bytes' post'.
         first # rest = pre' @ DlResponded 200 bytes' None # post' \<and>
         list_all dl_retryable pre' \<and>
         fo = Some \<lparr>data = bytes', pos = length bytes'\<rparr>)) \<and>
   (\<forall>vars code partial err.
      dl_output (snd (download_condition (DlResponded code partial err) vars)) =
        (if code = 200 then \<lparr>data = partial, pos = length partial\<rparr>
         else \<lparr>data = [], pos = 0\<rparr>))"
proof (intro conjI allI impI)
  assume "first # rest = pre @ DlResponded 200 bytes None # post \<and> list_all dl_retryable pre"
  then show "Download (Inr tmpDir) None version first rest =
        (Inr (Join [tmpDir, ''go'' @ version @ ''.linux-amd64.tar.gz'']),
         Some \<lparr>data = bytes, pos = length bytes\<rparr>)"
    by (simp add: Download_after_retries del: Join.simps)
next
  fix path fo
  assume "Download mkdirTemp createErr version first rest = (Inr path, fo)"
  then show "\<exists>pre' bytes' post'.
         first # rest = pre' @ DlResponded 200 bytes' None # post' \<and>
         list_all dl_retryable pre' \<and>
         fo = Some \<lparr>data = bytes', pos = length bytes'\<rparr>"
    by (rule Download_success_only)
next
  fix vars code partial err
  show "dl_output (snd (download_condition (DlResponded code partial err) vars)) =
        (if code = 200 then \<lparr>data = partial, pos = length partial\<rparr>
         else \<lparr>data = [], pos = 0\<rparr>)"
    by (rule download_condition_resets)
qed

text \<open>
  A first attempt that breaks off after the bytes \<open>PARTIAL\<close>, a transport error and
  a status 503, then a success: the file holds the last body only.
\<close>

theorem Download_file_is_successful_body_witness:
  "Download (Inr ''/tmp/goupdate-1'') None ''1.22.3''
     (DlResponded 200 ''PARTIAL'' (Some ''unexpected EOF''))
     [DlDoFails ''connection reset'', DlResponded 503 [] None, DlResponded 200 ''tarball'' None]
   = (Inr ''/tmp/goupdate-1/go1.22.3.linux-amd64.tar.gz'', Some \<lparr>data = ''tarball'', pos = 7\<rparr>)"
proof -
  have j: "Clean ''/tmp/goupdate-1/go1.22.3.linux-amd64.tar.gz''
      = ''/tmp/goupdate-1/go1.22.3.linux-amd64.tar.gz''"
    by (simp add: Clean_def path_elems_def)
  show ?thesis
    using Download_file_is_successful_body
      [where first = "DlResponded 200 ''PARTIAL'' (Some ''unexpected EOF'')"
         and rest = "[DlDoFails ''connection reset'', DlResponded 503 [] None,
                      DlResponded 200 ''tarball'' None]"
         and pre = "[DlResponded 200 ''PARTIAL'' (Some ''unexpected EOF''),
                     DlDoFails ''connection reset'', DlResponded 503 [] None]"
         and bytes = "''tarball''" and post = "[]" and tmpDir = "''/tmp/goupdate-1''"
         and version = "''1.22.3''", THEN conjunct1]
    by (simp add: j dl_retryable_def)
qed

lemma poll_loop_checksum:
  assumes "list_all ck_retryable pre"
  shows "fst (poll_loop checksum_condition (pre @ CkResponded 200 (Inr body) # post) vars) = None \<and>
     checksumBytes (snd (poll_loop checksum_condition (pre @ CkResponded 200 (Inr body) # post) vars))
       = body"
  using assms
proof (induction pre arbitrary: vars)
  case Nil
  show ?case by (simp add: checksum_condition_def)
next
  case (Cons a pre)
  then have r: "ck_retryable a" and p: "list_all ck_retryable pre" by simp_all
  from r have "\<exists>vars'. checksum_condition a vars = ((False, None), vars')"
    by (cases a) (auto simp: ck_retryable_def checksum_condition_def isl_def split: sum.splits)
  then obtain vars' where "checksum_condition a vars = ((False, None), vars')" ..
  then show ?case using Cons.IH [OF p, of vars'] by simp
qed

lemma fetchChecksum_published:
  assumes "first # rest = pre @ CkResponded 200 (Inr body) # post"
    and "list_all ck_retryable pre"
  shows "fetchChecksum first rest = Inr (first_token body)"
proof -
  let ?v0 = "\<lparr>checksumBytes = [], ck_lastSeenErr = None\<rparr>"
  obtain err vars where p: "poll_loop checksum_condition (first # rest) ?v0 = (err, vars)"
    by (cases "poll_loop checksum_condition (first # rest) ?v0")
  have "fst (poll_loop checksum_condition (first # rest) ?v0) = None \<and>
      checksumBytes (snd (poll_loop checksum_condition (first # rest) ?v0)) = body"
    unfolding assms(1) using assms(2) by (rule poll_loop_checksum)
  then have e: "err = None" "checksumBytes vars = body"
    unfolding p by simp_all
  have "fetchChecksum first rest =
      Inr (if length (Fields body) > 0 then Fields body ! 0 else TrimSpace body)"
    using p e by (simp add: fetchChecksum_def PollUntilContextTimeout_def Let_def del: poll_loop.simps)
  then show ?thesis by (simp only: published_digest)
qed

text \<open>
  Claim C3: when the checksum body was fetched (after any number of retryable
  failures) and the local file was read, \<open>VerifyChecksum\<close> returns \<open>(b, nil)\<close> where
  \<open>b\<close> says whether the hexadecimal SHA-256 digest of the file equals, as a string,
  the first white-space-delimited token of the body: true when they are equal,
  false when they differ, and never an error.  A body without white space is its own
  first token.  An error of \<open>VerifyChecksum\<close> always comes from fetching the checksum
  or from reading the file.
\<close>

theorem VerifyChecksum_mismatch_is_false:
  "(first # rest = pre @ CkResponded 200 (Inr body) # post \<and> list_all ck_retryable pre \<longrightarrow>
      VerifyChecksum sha256 first rest (Contents bytes) =
        Inr (first_token body = EncodeToString (sha256 bytes))) \<and>
   ((\<forall>x\<in>set (runes body). \<not> IsSpace (fst x)) \<longrightarrow> first_token body = body) \<and>
   (\<forall>err. VerifyChecksum sha256 first rest f = Inl err \<longrightarrow>
      isl (fetchChecksum first rest) \<or> isl (calculateChecksum sha256 f))"
proof (intro conjI allI impI)
  assume "first # rest = pre @ CkResponded 200 (Inr body) # post \<and> list_all ck_retryable pre"
  then have "fetchChecksum first rest = Inr (first_token body)"
    by (simp add: fetchChecksum_published)
  then show "VerifyChecksum sha256 first rest (Contents bytes) =
        Inr (first_token body = EncodeToString (sha256 bytes))"
    by (simp add: VerifyChecksum_def calculateChecksum_def)
next
  assume "\<forall>x\<in>set (runes body). \<not> IsSpace (fst x)"
  then show "first_token body = body" by (rule first_token_no_space)
next
  fix err
  assume "VerifyChecksum sha256 first rest f = Inl err"
  then show "isl (fetchChecksum first rest) \<or> isl (calculateChecksum sha256 f)"
    by (auto simp: VerifyChecksum_def isl_def split: sum.splits)
qed

text \<open>
  With a stand-in digest function whose digest is the bytes \<open>ab c1\<close>: the body
  \<open>abc1  go1.22.3.linux-amd64.tar.gz\<close> verifies after one failed attempt, and the
  body \<open>ABC1\<close> does not, since the comparison is case-sensitive.
\<close>

theorem VerifyChecksum_mismatch_is_false_witness:
  "VerifyChecksum (\<lambda>bs. [CHR 0xab, CHR 0xc1]) (CkResponded 503 (Inr []))
      [CkResponded 200 (Inr ''abc1  go1.22.3.linux-amd64.tar.gz'')] (Contents ''tarball'')
     = Inr True \<and>
   VerifyChecksum (\<lambda>bs. [CHR 0xab, CHR 0xc1]) (CkResponded 200 (Inr ''ABC1''))
      [] (Contents ''tarball'')
     = Inr False"
proof -
  have t: "first_token ''abc1  go1.22.3.linux-amd64.tar.gz'' = ''abc1''"
    "first_token ''ABC1'' = ''ABC1''"
    by (simp_all add: first_token_def runes_ascii byte_def IsSpace_def del: runes.simps(2))
  have h: "EncodeToString [CHR 0xab, CHR 0xc1] = ''abc1''"
    by (simp add: EncodeToString_def hexdigit_def byte_def)
  have 1: "VerifyChecksum (\<lambda>bs. [CHR 0xab, CHR 0xc1]) (CkResponded 503 (Inr []))
      [CkResponded 200 (Inr ''abc1  go1.22.3.linux-amd64.tar.gz'')] (Contents ''tarball'')
     = Inr True"
    using VerifyChecksum_mismatch_is_false
      [where first = "CkResponded 503 (Inr [])"
         and rest = "[CkResponded 200 (Inr ''abc1  go1.22.3.linux-amd64.tar.gz'')]"
         and pre = "[CkResponded 503 (Inr [])]"
         and body = "''abc1  go1.22.3.linux-amd64.tar.gz''" and post = "[]"
         and ?sha256.0 = "\<lambda>bs. [CHR 0xab, CHR 0xc1]" and bytes = "''tarball''",
       THEN conjunct1]
    by (simp add: ck_retryable_def t h)
  have 2: "VerifyChecksum (\<lambda>bs. [CHR 0xab, CHR 0xc1]) (CkResponded 200 (Inr ''ABC1''))
      [] (Contents ''tarball'') = Inr False"
    using VerifyChecksum_mismatch_is_false
      [where first = "CkResponded 200 (Inr ''ABC1'')" and rest = "[]" and pre = "[]"
         and body = "''ABC1''" and post = "[]"
         and ?sha256.0 = "\<lambda>bs. [CHR 0xab, CHR 0xc1]" and bytes = "''tarball''",
       THEN conjunct1]
    by (simp add: t h)
  show ?thesis using 1 2 by simp
qed

section \<open>Properties of the installer\<close>

text \<open>
  The guard of \<open>extractTarball\<close>: an entry whose joined path does not start with
  the characters of the install directory ends the extraction with an error before
  any operation is requested for it.
\<close>

lemma extract_loop_rejects:
  assumes "cancelAfter \<noteq> Some 0"
    and "\<not> HasPrefix (Join [InstallDir i, Name header]) (InstallDir i)"
  shows "extract_loop i env cancelAfter (Header header content # items) =
           ([], Some (PathTraversalAttempt (Name header)))"
  using assms by (simp del: Join.simps)

text \<open>
  Claim C1 asks that an entry whose resolved path is not beneath the install root
  be rejected, also when that path merely shares a string prefix with the root.  The
  code compares strings: with the install directory \<open>/home/u/.local/lib\<close>, the
  regular-file entry \<open>../lib2/evil\<close> resolves to \<open>/home/u/.local/lib2/evil\<close>, which is
  not beneath the root, and is extracted without an error: the parent directory is
  created and the file is created and written outside the root.  An entry that
  leaves the root altogether, \<open>../../etc/passwd\<close>, is rejected.
\<close>

theorem extractTarball_sibling_prefix_escapes:
  "extractTarball \<lparr>InstallDir = ''/home/u/.local/lib'', BinDir = ''/home/u/.local/bin''\<rparr>
      \<lparr>os_stat = (\<lambda>p. StatNotExist), os_lstat = (\<lambda>p. StatNotExist), os_fails = (\<lambda>op. None)\<rparr>
      None None None
      [Header \<lparr>Name = ''../lib2/evil'', Typeflag = CHR ''0'', Mode = 420, Linkname = []\<rparr>
         ''payload'']
     = ([OpMkdirAll ''/home/u/.local/lib2'' 493,
         OpCreateFile ''/home/u/.local/lib2/evil'' 420,
         OpWriteFile ''/home/u/.local/lib2/evil'' ''payload''], None) \<and>
   Join [''/home/u/.local/lib'', ''../lib2/evil''] = ''/home/u/.local/lib2/evil'' \<and>
   \<not> within_root ''/home/u/.local/lib'' ''/home/u/.local/lib2/evil'' \<and>
   extractTarball \<lparr>InstallDir = ''/home/u/.local/lib'', BinDir = ''/home/u/.local/bin''\<rparr>
      \<lparr>os_stat = (\<lambda>p. StatNotExist), os_lstat = (\<lambda>p. StatNotExist), os_fails = (\<lambda>op. None)\<rparr>
      None None None
      [Header \<lparr>Name = ''../../etc/passwd'', Typeflag = CHR ''0'', Mode = 420, Linkname = []\<rparr>
         ''payload'']
     = ([], Some (PathTraversalAttempt ''../../etc/passwd''))"
  by (simp add: extractTarball_def extract_entry_def Clean_def path_elems_def Dir_def
      HasPrefix_def within_root_def Let_def)

text \<open>
  Claim C7 says that \<open>removeExisting\<close> removes every prior \<open>go\<close> or \<open>gofmt\<close> symlink
  of the bin directory, in particular when the prior installation directory does not
  exist.  On the code, when \<open>os.Stat\<close> reports that \<open>InstallDir/go\<close> does not exist,
  the function returns \<open>nil\<close> at once: with both symlinks present it requests no
  removal.  When the directory exists it removes the directory and both symlinks.
  In the first situation the operating system refuses \<open>os.Symlink\<close> on the name that
  is still there, and the same \<open>Install\<close> fails in \<open>createSymlinks\<close>.
\<close>

theorem removeExisting_leaves_symlinks:
  "removeExisting \<lparr>InstallDir = ''/home/u/.local/lib'', BinDir = ''/home/u/.local/bin''\<rparr>
      \<lparr>os_stat = (\<lambda>p. StatNotExist),
       os_lstat = (\<lambda>p. if p = ''/home/u/.local/bin/go'' \<or> p = ''/home/u/.local/bin/gofmt''
                        then StatOK else StatNotExist),
       os_fails = (\<lambda>op. None)\<rparr>
     = ([], None) \<and>
   removeExisting \<lparr>InstallDir = ''/home/u/.local/lib'', BinDir = ''/home/u/.local/bin''\<rparr>
      \<lparr>os_stat = (\<lambda>p. if p = ''/home/u/.local/lib/go'' then StatOK else StatNotExist),
       os_lstat = (\<lambda>p. if p = ''/home/u/.local/bin/go'' \<or> p = ''/home/u/.local/bin/gofmt''
                        then StatOK else StatNotExist),
       os_fails = (\<lambda>op. None)\<rparr>
     = ([OpRemoveAll ''/home/u/.local/lib/go'', OpRemove ''/home/u/.local/bin/go'',
         OpRemove ''/home/u/.local/bin/gofmt''], None) \<and>
   Install \<lparr>InstallDir = ''/home/u/.local/lib'', BinDir = ''/home/u/.local/bin''\<rparr>
      \<lparr>os_stat = (\<lambda>p. StatNotExist),
       os_lstat = (\<lambda>p. if p = ''/home/u/.local/bin/go'' \<or> p = ''/home/u/.local/bin/gofmt''
                        then StatOK else StatNotExist),
       os_fails = (\<lambda>op. if op = OpSymlink ''/home/u/.local/lib/go/bin/go''
                                      ''/home/u/.local/bin/go''
                          then Some ''file exists'' else None)\<rparr>
      None None None []
     = ([OpMkdirAll ''/home/u/.local/lib'' 493, OpMkdirAll ''/home/u/.local/bin'' 493,
         OpSymlink ''/home/u/.local/lib/go/bin/go'' ''/home/u/.local/bin/go''],
        Some (SymlinksFailed (GoSymlinkFailed ''file exists'')))"
  by (simp add: removeExisting_def Install_def ensureDirectories_def extractTarball_def
      createSymlinks_def Clean_def path_elems_def Let_def)

text \<open>
  Claim C9 says that a non-zero exit of the verification subprocess yields an error
  with the captured output attached.  On the code, \<open>runGoCommand\<close> writes the
  captured bytes into the builder only after \<open>cmd.Wait()\<close> returned \<open>nil\<close>; on a
  non-zero exit it returns before that, and the error of \<open>Verify\<close> is formatted with
  an empty \<open>output.String()\<close>: the captured text is lost.
\<close>

theorem Verify_drops_captured_output:
  "Verify \<lparr>InstallDir = ''/home/u/.local/lib'', BinDir = ''/home/u/.local/bin''\<rparr>
      \<lparr>os_stat = (\<lambda>p. StatOK), os_lstat = (\<lambda>p. StatOK), os_fails = (\<lambda>op. None)\<rparr>
      \<lparr>pipeErr = None, startErr = None,
       readAll = Inr ''go: cannot find GOROOT directory'',
       waited = Exited (Some ''exit status 2'')\<rparr>
     = Some (VerificationFailed [] (CommandFailed ''exit status 2''))"
  by (simp add: Verify_def runGoCommand_def Clean_def path_elems_def)

section \<open>Properties of the orchestrator\<close>





end
